theory Spec2Isabelle
  imports Complex_Main
begin

section \<open>The drawing application (src/lab1/main.py)\<close>

subsection \<open>Data model\<close>

text \<open>
  The three line-algorithm classes imported from \<open>scripts.line_algorithms\<close>. The
  application stores the class object itself in \<open>_current_line_algorithm\<close>.
\<close>

datatype line_algorithm = DDA | Bresenham | Wu

text \<open>
  Exceptions the modelled code can raise: \<open>range\<close> with step \<open>0\<close>, \<open>//\<close> by \<open>0\<close>,
  the \<open>raise\<close> of a string at the end of the dispatch in \<open>_on_canvas_click\<close> (Python
  reports it as a TypeError), and \<open>None\<close> handed to an algorithm as a coordinate.
\<close>

datatype py_error =
    ValueError
  | ZeroDivisionError
  | RaiseOfString
  | NoneCoordinate

text \<open>Items of the Tk canvas, in creation order, with the options the code passes.\<close>

datatype item =
    Line int int int int string string
  | Oval int int int int string
  | Rectangle int int int int string string

text \<open>A point as \<open>get_points\<close> returns it: \<open>(x, y, color)\<close>.\<close>

type_synonym point = "int \<times> int \<times> string"

record event =
  event_x :: int
  event_y :: int

text \<open>
  The attributes of \<open>DrawingApp\<close>, together with what its calls into Tk and the
  standard library leave behind: the window title and geometry, the canvas items, the
  size \<open>winfo_width\<close>/\<open>winfo_height\<close> report, the message boxes shown, the lines
  printed, and the callbacks registered with \<open>after\<close> (delay in ms, and the arguments
  of the pending \<open>_draw_points_with_latency\<close> call).
\<close>

record app =
  title :: string
  geometry :: string
  grid_size :: int
  start_x :: "int option"
  start_y :: "int option"
  current_line_algorithm :: "line_algorithm option"
  current_curve_algorithm :: "line_algorithm option"
  current_parametric_algorithm :: "line_algorithm option"
  debug_mode :: bool
  canvas :: "item list"
  winfo_width :: int
  winfo_height :: int
  dialogs :: "(string \<times> string) list"
  stdout :: "string list"
  after_queue :: "(nat \<times> point list \<times> nat) list"

subsection \<open>Python built-ins used by the code\<close>

text \<open>Truth value of an attribute: \<open>None\<close> is falsy, a class object is truthy.\<close>

fun truthy :: "line_algorithm option \<Rightarrow> bool" where
  "truthy None = False"
| "truthy (Some c) = True"

definition py_any :: "bool list \<Rightarrow> bool" where
  "py_any bs = list_ex (\<lambda>b. b) bs"

text \<open>\<open>range(start, stop, step)\<close>; a zero step raises ValueError.\<close>

definition py_range :: "int \<Rightarrow> int \<Rightarrow> int \<Rightarrow> py_error + int list" where
  "py_range start stop step =
     (if step = 0 then Inl ValueError
      else if 0 < step then
        Inr (map (\<lambda>k. start + int k * step) [0..<nat ((stop - start + step - 1) div step)])
      else
        Inr (map (\<lambda>k. start + int k * step) [0..<nat ((start - stop - step - 1) div (- step))]))"

text \<open>\<open>a // b\<close> on integers: floor division, ZeroDivisionError when \<open>b = 0\<close>.\<close>

definition floordiv :: "int \<Rightarrow> int \<Rightarrow> py_error + int" where
  "floordiv a b = (if b = 0 then Inl ZeroDivisionError else Inr (a div b))"

text \<open>\<open>str\<close> of an integer and the format specification \<open>{v:5}\<close> (right-aligned, width 5).\<close>

fun str_nat :: "nat \<Rightarrow> string" where
  "str_nat n =
     (if n < 10 then [''0123456789'' ! n]
      else str_nat (n div 10) @ [''0123456789'' ! (n mod 10)])"

declare str_nat.simps [simp del]

definition str_int :: "int \<Rightarrow> string" where
  "str_int i = (if i < 0 then CHR ''-'' # str_nat (nat (- i)) else str_nat (nat i))"

definition format_5 :: "int \<Rightarrow> string" where
  "format_5 v = (let s = str_int v in replicate (5 - length s) CHR '' '' @ s)"

subsection \<open>Methods of \<open>DrawingApp\<close>\<close>

fun has_tag :: "string \<Rightarrow> item \<Rightarrow> bool" where
  "has_tag t (Line x0 y0 x1 y1 fill tags) = (tags = t)"
| "has_tag t (Oval x0 y0 x1 y1 fill) = False"
| "has_tag t (Rectangle x0 y0 x1 y1 outline fill) = False"

definition draw_grid :: "app \<Rightarrow> py_error + app" where
  "draw_grid s =
     (let s1 = s\<lparr>canvas := filter (\<lambda>i. \<not> has_tag ''grid'' i) (canvas s)\<rparr>;
          width = winfo_width s1;
          height = winfo_height s1
      in case py_range 0 width (grid_size s1) of
           Inl e \<Rightarrow> Inl e
         | Inr xs \<Rightarrow>
             (let s2 = s1\<lparr>canvas := canvas s1 @
                         map (\<lambda>x. Line x 0 x height ''lightgray'' ''grid'') xs\<rparr>
              in case py_range 0 height (grid_size s2) of
                   Inl e \<Rightarrow> Inl e
                 | Inr ys \<Rightarrow>
                     Inr (s2\<lparr>canvas := canvas s2 @
                           map (\<lambda>y. Line 0 y width y ''lightgray'' ''grid'') ys\<rparr>)))"

text \<open>
  \<open>__init__\<close>. The arguments are the width and height that the freshly created canvas
  reports to the first \<open>_draw_grid\<close>.
\<close>

definition DrawingApp_init :: "int \<Rightarrow> int \<Rightarrow> py_error + app" where
  "DrawingApp_init w h =
     (case draw_grid
             \<lparr>title = ''Drawing App'', geometry = ''800x600'', grid_size = 5,
              start_x = None, start_y = None,
              current_line_algorithm = None, current_curve_algorithm = None,
              current_parametric_algorithm = None, debug_mode = False,
              canvas = [], winfo_width = w, winfo_height = h,
              dialogs = [], stdout = [], after_queue = []\<rparr> of
        Inl e \<Rightarrow> Inl e
      | Inr s \<Rightarrow>
          Inr (s\<lparr>start_x := None, start_y := None,
                 current_line_algorithm := None, current_curve_algorithm := None,
                 current_parametric_algorithm := None, debug_mode := False\<rparr>))"

text \<open>The handler bound to \<open><Configure>\<close>: Tk has resized the canvas, the grid is redrawn.\<close>

definition on_configure :: "int \<Rightarrow> int \<Rightarrow> app \<Rightarrow> py_error + app" where
  "on_configure w h s = draw_grid (s\<lparr>winfo_width := w, winfo_height := h\<rparr>)"

definition toggle_debug_mode :: "app \<Rightarrow> app" where
  "toggle_debug_mode s = s\<lparr>debug_mode := \<not> debug_mode s\<rparr>"

definition uncheck_all_algorithms :: "app \<Rightarrow> app" where
  "uncheck_all_algorithms s = s\<lparr>current_line_algorithm := None\<rparr>"

definition set_line_algorithm :: "string \<Rightarrow> app \<Rightarrow> app" where
  "set_line_algorithm algorithm s =
     (let s1 = uncheck_all_algorithms s
      in if algorithm = ''DDA'' then
           s1\<lparr>current_line_algorithm := Some DDA, title := ''DDA''\<rparr>
         else if algorithm = ''Bresenham'' then
           s1\<lparr>current_line_algorithm := Some Bresenham, title := ''Bresenham''\<rparr>
         else if algorithm = ''Wu'' then
           s1\<lparr>current_line_algorithm := Some Wu, title := ''Wu''\<rparr>
         else s1)"

definition create_rectangle :: "point \<Rightarrow> app \<Rightarrow> app" where
  "create_rectangle p s =
     (case p of (x, y, color) \<Rightarrow>
        s\<lparr>canvas := canvas s @
            [Rectangle (x * grid_size s) (y * grid_size s)
                       ((x + 1) * grid_size s) ((y + 1) * grid_size s)
                       ''black'' color]\<rparr>)"

text \<open>
  \<open>_draw_points_with_latency\<close>: one call draws the cell at \<open>index\<close>, prints it and
  registers the call for \<open>index + 1\<close> with \<open>after(50, ...)\<close>.
\<close>

definition draw_points_with_latency :: "point list \<Rightarrow> nat \<Rightarrow> app \<Rightarrow> app" where
  "draw_points_with_latency points index s =
     (if index \<ge> length points then s
      else case points ! index of (x, y, color) \<Rightarrow>
        (let s1 = create_rectangle (x, y, color) s;
             s2 = s1\<lparr>stdout := stdout s1 @ [''Point: '' @ format_5 x @ '' '' @ format_5 y]\<rparr>
         in s2\<lparr>after_queue := after_queue s2 @ [(50, points, index + 1)]\<rparr>))"

fun draw_points :: "point list \<Rightarrow> app \<Rightarrow> app" where
  "draw_points [] s = s"
| "draw_points (point # points) s = draw_points points (create_rectangle point s)"

text \<open>
  Tk's main loop running the oldest registered \<open>after\<close> callback, and running them
  until none is left.
\<close>

definition fire_timer :: "app \<Rightarrow> app" where
  "fire_timer s =
     (case after_queue s of
        [] \<Rightarrow> s
      | (ms, points, index) # rest \<Rightarrow>
          draw_points_with_latency points index (s\<lparr>after_queue := rest\<rparr>))"

definition pending_work :: "app \<Rightarrow> nat" where
  "pending_work s = sum_list (map (\<lambda>(ms, points, index). Suc (length points - index)) (after_queue s))"

function run_timers :: "app \<Rightarrow> app" where
  "run_timers s = (if after_queue s = [] then s else run_timers (fire_timer s))"
  by pat_completeness auto
termination
proof (relation "measure pending_work")
  show "wf (measure pending_work)" by simp
next
  fix s :: app
  assume ne: "after_queue s \<noteq> []"
  then obtain ms points index rest where q: "after_queue s = (ms, points, index) # rest"
    by (cases "after_queue s") auto
  show "(fire_timer s, s) \<in> measure pending_work"
    using q
    by (auto simp: fire_timer_def pending_work_def draw_points_with_latency_def
                   create_rectangle_def Let_def split: prod.splits)
qed

declare run_timers.simps [simp del]

text \<open>
  \<open>_on_canvas_click\<close>. \<open>get_points\<close> stands for constructing the selected class on the
  four coordinates and calling its \<open>get_points()\<close>.
\<close>

definition on_canvas_click ::
  "(line_algorithm \<Rightarrow> int \<Rightarrow> int \<Rightarrow> int \<Rightarrow> int \<Rightarrow> point list) \<Rightarrow> event \<Rightarrow> app \<Rightarrow> py_error + app"
where
  "on_canvas_click get_points event s =
     (if py_any [truthy (current_line_algorithm s),
                 truthy (current_curve_algorithm s),
                 truthy (current_parametric_algorithm s)] = False
      then Inr (s\<lparr>dialogs := dialogs s @ [(''Warning'', ''No algorithm selected.'')]\<rparr>)
      else
        case floordiv (event_x event) (grid_size s) of
          Inl e \<Rightarrow> Inl e
        | Inr gx \<Rightarrow>
        (case floordiv (event_y event) (grid_size s) of
          Inl e \<Rightarrow> Inl e
        | Inr gy \<Rightarrow>
        (let oval = Oval (event_x event - 3) (event_y event - 3)
                         (event_x event + 3) (event_y event + 3) ''red''
         in case start_x s of
              None \<Rightarrow>
                Inr (s\<lparr>start_x := Some gx, start_y := Some gy,
                       canvas := canvas s @ [oval]\<rparr>)
            | Some sx \<Rightarrow>
                (let s1 = s\<lparr>canvas := canvas s @ [oval]\<rparr>;
                     selected =
                       (if current_line_algorithm s1 \<noteq> None then
                          Inr (the (current_line_algorithm s1))
                        else if current_curve_algorithm s1 \<noteq> None then
                          Inr (the (current_curve_algorithm s1))
                        else if current_parametric_algorithm s1 \<noteq> None then
                          Inr (the (current_parametric_algorithm s1))
                        else Inl RaiseOfString)
                 in case selected of
                      Inl e \<Rightarrow> Inl e
                    | Inr algorithm \<Rightarrow>
                        (case start_y s1 of
                           None \<Rightarrow> Inl NoneCoordinate
                         | Some sy \<Rightarrow>
                             (let points_to_draw = get_points algorithm sx sy gx gy;
                                  s2 = (if debug_mode s1
                                        then draw_points_with_latency points_to_draw 0 s1
                                        else draw_points points_to_draw s1)
                              in Inr (s2\<lparr>start_x := None, start_y := None\<rparr>)))))))"

text \<open>
  The states the running application can be in: the state after \<open>__init__\<close>, and every
  state a bound handler, a menu command or a timer callback leads to.
\<close>

inductive reachable ::
  "(line_algorithm \<Rightarrow> int \<Rightarrow> int \<Rightarrow> int \<Rightarrow> int \<Rightarrow> point list) \<Rightarrow> app \<Rightarrow> bool"
  for get_points
where
  r_init: "DrawingApp_init w h = Inr s \<Longrightarrow> reachable get_points s"
| r_click: "reachable get_points s \<Longrightarrow> on_canvas_click get_points e s = Inr s' \<Longrightarrow>
            reachable get_points s'"
| r_configure: "reachable get_points s \<Longrightarrow> on_configure w h s = Inr s' \<Longrightarrow>
            reachable get_points s'"
| r_menu: "reachable get_points s \<Longrightarrow> l \<in> set [''DDA'', ''Bresenham'', ''Wu''] \<Longrightarrow>
            reachable get_points (set_line_algorithm l s)"
| r_debug: "reachable get_points s \<Longrightarrow> reachable get_points (toggle_debug_mode s)"
| r_timer: "reachable get_points s \<Longrightarrow> reachable get_points (fire_timer s)"

text \<open>
  The state \<open>__init__\<close> produces when the new canvas reports a size of 1 by 1 (one
  vertical and one horizontal grid line). The theorems below are instantiated at it.
\<close>

definition state_after_init :: app where
  "state_after_init =
     \<lparr>title = ''Drawing App'', geometry = ''800x600'', grid_size = 5,
      start_x = None, start_y = None,
      current_line_algorithm = None, current_curve_algorithm = None,
      current_parametric_algorithm = None, debug_mode = False,
      canvas = [Line 0 0 0 1 ''lightgray'' ''grid'', Line 0 0 1 0 ''lightgray'' ''grid''],
      winfo_width = 1, winfo_height = 1,
      dialogs = [], stdout = [], after_queue = []\<rparr>"

text \<open>
  What one point contributes: the rectangle both drawing methods create for it on a grid
  of cell size \<open>g\<close>, and the line debug mode prints for it.
\<close>

definition rectangle_of :: "int \<Rightarrow> point \<Rightarrow> item" where
  "rectangle_of g p = (case p of (x, y, color) \<Rightarrow>
     Rectangle (x * g) (y * g) ((x + 1) * g) ((y + 1) * g) ''black'' color)"

definition point_line :: "point \<Rightarrow> string" where
  "point_line p = (case p of (x, y, color) \<Rightarrow> ''Point: '' @ format_5 x @ '' '' @ format_5 y)"

text \<open>
  What every reachable state satisfies: the cell size is 5, the two start coordinates
  are set or unset together, and no curve or parametric algorithm is ever selected.
\<close>

definition app_inv :: "app \<Rightarrow> bool" where
  "app_inv s = (grid_size s = 5 \<and> (start_x s = None) = (start_y s = None)
     \<and> current_curve_algorithm s = None \<and> current_parametric_algorithm s = None)"

section \<open>The rasterizers (scripts/line_algorithms.py)\<close>

text \<open>
  Modelled from the spec: the classes \<open>DDA\<close>, \<open>Bresenham\<close> and \<open>Wu\<close> of
  \<open>scripts.line_algorithms\<close>, which main.py imports and which are not among the
  sources. Each definition follows the description of its algorithm in section 4.1 of
  the specification. A cell is \<open>(x, y, opacity)\<close>: the opacity is the weight of the
  foreground colour in the blend with the background, \<open>1\<close> for a fully opaque cell. The
  real-valued quantities of the description are exact rationals.
\<close>

type_synonym cell = "int \<times> int \<times> rat"

subsection \<open>DDA\<close>

text \<open>
  Modelled from the spec: \<open>DDA.get_points\<close>. \<open>steps = max(|dx|, |dy|)\<close>; for
  \<open>steps = 0\<close> the single start cell; otherwise the increments \<open>dx/steps\<close> and
  \<open>dy/steps\<close> are accumulated from the start and each of the \<open>steps + 1\<close> samples is
  rounded to the nearest cell. The specification does not say how a sample halfway
  between two cells is rounded, so the rounding is the parameter \<open>nearest\<close>
  (\<^const>\<open>round\<close> rounds halves up).
\<close>

fun DDA_samples :: "(rat \<Rightarrow> int) \<Rightarrow> nat \<Rightarrow> rat \<Rightarrow> rat \<Rightarrow> rat \<Rightarrow> rat \<Rightarrow> cell list" where
  "DDA_samples nearest 0 x y x_inc y_inc = []"
| "DDA_samples nearest (Suc n) x y x_inc y_inc =
     (nearest x, nearest y, 1) # DDA_samples nearest n (x + x_inc) (y + y_inc) x_inc y_inc"

definition DDA_get_points :: "(rat \<Rightarrow> int) \<Rightarrow> int \<Rightarrow> int \<Rightarrow> int \<Rightarrow> int \<Rightarrow> cell list" where
  "DDA_get_points nearest x0 y0 x1 y1 =
     (let dx = x1 - x0;
          dy = y1 - y0;
          steps = max \<bar>dx\<bar> \<bar>dy\<bar>
      in if steps = 0 then [(x0, y0, 1)]
         else DDA_samples nearest (nat steps + 1) (of_int x0) (of_int y0)
                (of_int dx / of_int steps) (of_int dy / of_int steps))"

subsection \<open>Bresenham\<close>

text \<open>
  Modelled from the spec: \<open>Bresenham.get_points\<close>. The dominant axis is the one with
  the larger absolute delta (the x axis when they are equal). Each iteration emits the
  current cell and moves one unit along the dominant axis in the direction of the sign of
  its delta; the decision error, initialised to \<open>2 * minor_delta - major_delta\<close>, decides
  whether the minor axis moves one unit too. The error is \<open>0\<close> exactly when the line
  passes halfway between two cells, and the specification does not say which of the two
  is taken then, so the rule is the parameter \<open>tie\<close>: \<open>tie s\<close> tells whether a zero
  error moves the minor axis when that axis runs in direction \<open>s\<close>.
\<close>

fun Bresenham_steps ::
  "bool \<Rightarrow> int \<Rightarrow> int \<Rightarrow> int \<Rightarrow> int \<Rightarrow> nat \<Rightarrow> int \<Rightarrow> int \<Rightarrow> int \<Rightarrow> (int \<times> int) list"
where
  "Bresenham_steps tie d_major d_minor s_major s_minor 0 major minor error = []"
| "Bresenham_steps tie d_major d_minor s_major s_minor (Suc n) major minor error =
     (major, minor) #
     (if 0 < error \<or> (tie \<and> error = 0)
      then Bresenham_steps tie d_major d_minor s_major s_minor n
             (major + s_major) (minor + s_minor) (error - 2 * d_major + 2 * d_minor)
      else Bresenham_steps tie d_major d_minor s_major s_minor n
             (major + s_major) minor (error + 2 * d_minor))"

definition Bresenham_get_points :: "(int \<Rightarrow> bool) \<Rightarrow> int \<Rightarrow> int \<Rightarrow> int \<Rightarrow> int \<Rightarrow> cell list" where
  "Bresenham_get_points tie x0 y0 x1 y1 =
     (let dx = \<bar>x1 - x0\<bar>;
          dy = \<bar>y1 - y0\<bar>;
          sx = sgn (x1 - x0);
          sy = sgn (y1 - y0)
      in if dy \<le> dx
         then map (\<lambda>(x, y). (x, y, 1))
                (Bresenham_steps (tie sy) dx dy sx sy (nat dx + 1) x0 y0 (2 * dy - dx))
         else map (\<lambda>(y, x). (x, y, 1))
                (Bresenham_steps (tie sx) dy dx sy sx (nat dy + 1) y0 x0 (2 * dx - dy)))"



subsection \<open>Wu\<close>

text \<open>
  Modelled from the spec: \<open>Wu.get_points\<close>. A zero-length segment is one opaque cell.
  Otherwise the two endpoints are emitted fully opaque, and between them the algorithm
  steps one unit at a time along the x axis when \<open>|slope| \<le> 1\<close> (along the y axis
  otherwise), accumulates the exact value \<open>v\<close> of the other coordinate, and blends at
  each step: the cell at \<open>floor v\<close> gets weight \<open>1 - frac v\<close> and the next one, at
  \<open>floor v + 1\<close>, gets weight \<open>frac v\<close>. A cell of weight \<open>0\<close> is not emitted: by
  section 8 of the specification a segment of slope \<open>0\<close> yields only its opaque cells,
  with no blending.
\<close>

definition Wu_blend :: "rat \<Rightarrow> (int \<times> rat) list" where
  "Wu_blend v = (\<lfloor>v\<rfloor>, 1 - frac v) # (if frac v = 0 then [] else [(\<lfloor>v\<rfloor> + 1, frac v)])"

fun Wu_steps :: "int \<Rightarrow> rat \<Rightarrow> nat \<Rightarrow> int \<Rightarrow> rat \<Rightarrow> (int \<times> int \<times> rat) list" where
  "Wu_steps s_major gradient 0 major v = []"
| "Wu_steps s_major gradient (Suc n) major v =
     map (\<lambda>(minor, w). (major, minor, w)) (Wu_blend v) @
     Wu_steps s_major gradient n (major + s_major) (v + gradient)"

definition Wu_get_points :: "int \<Rightarrow> int \<Rightarrow> int \<Rightarrow> int \<Rightarrow> cell list" where
  "Wu_get_points x0 y0 x1 y1 =
     (let dx = x1 - x0;
          dy = y1 - y0
      in if dx = 0 \<and> dy = 0 then [(x0, y0, 1)]
         else if \<bar>dy\<bar> \<le> \<bar>dx\<bar> then
           (let gradient = of_int dy / of_int \<bar>dx\<bar>
            in (x0, y0, 1) #
               Wu_steps (sgn dx) gradient (nat \<bar>dx\<bar> - 1) (x0 + sgn dx) (of_int y0 + gradient)
               @ [(x1, y1, 1)])
         else
           (let gradient = of_int dx / of_int \<bar>dy\<bar>
            in (x0, y0, 1) #
               map (\<lambda>(y, x, w). (x, y, w))
                 (Wu_steps (sgn dy) gradient (nat \<bar>dy\<bar> - 1) (y0 + sgn dy) (of_int x0 + gradient))
               @ [(x1, y1, 1)]))"

section \<open>Properties of the application\<close>

lemma init_1_1: "DrawingApp_init 1 1 = Inr state_after_init"
  by (simp add: DrawingApp_init_def draw_grid_def py_range_def state_after_init_def)

subsection \<open>The click handler without a selected algorithm\<close>

text \<open>
  C6. When none of the line, curve and parametric algorithm attributes is set, a canvas
  click only shows the warning box: the handler returns normally and the state is the
  old one with the warning appended to the dialogs shown, so the pending start
  coordinates and the canvas items are unchanged.
\<close>

theorem click_without_algorithm:
  assumes "current_line_algorithm s = None"
      and "current_curve_algorithm s = None"
      and "current_parametric_algorithm s = None"
  shows "on_canvas_click get_points e s =
           Inr (s\<lparr>dialogs := dialogs s @ [(''Warning'', ''No algorithm selected.'')]\<rparr>)"
  using assms by (simp add: on_canvas_click_def py_any_def)

theorem click_without_algorithm_witness:
  "on_canvas_click (\<lambda>a x0 y0 x1 y1. []) \<lparr>event_x = 12, event_y = 7\<rparr> state_after_init =
     Inr (state_after_init\<lparr>dialogs := [(''Warning'', ''No algorithm selected.'')]\<rparr>)"
  using click_without_algorithm
          [of state_after_init "\<lambda>a x0 y0 x1 y1. []" "\<lparr>event_x = 12, event_y = 7\<rparr>"]
  by (simp add: state_after_init_def)

subsection \<open>Selecting a line algorithm\<close>

text \<open>
  C8. \<open>_set_line_algorithm\<close> with one of the labels DDA, Bresenham, Wu returns the old
  state with only the line-algorithm selection and the window title replaced. The canvas
  is the same for every label, the previous selection is cleared first
  (\<open>_uncheck_all_algorithms\<close>), and the result does not depend on it.
\<close>

theorem set_line_algorithm_frame:
  "set_line_algorithm ''DDA'' s = s\<lparr>current_line_algorithm := Some DDA, title := ''DDA''\<rparr>
   \<and> set_line_algorithm ''Bresenham'' s =
       s\<lparr>current_line_algorithm := Some Bresenham, title := ''Bresenham''\<rparr>
   \<and> set_line_algorithm ''Wu'' s = s\<lparr>current_line_algorithm := Some Wu, title := ''Wu''\<rparr>
   \<and> canvas (set_line_algorithm label s) = canvas s
   \<and> current_line_algorithm (uncheck_all_algorithms s) = None
   \<and> set_line_algorithm label s = set_line_algorithm label (uncheck_all_algorithms s)"
  by (simp add: set_line_algorithm_def uncheck_all_algorithms_def Let_def)

subsection \<open>The dispatch of the click handler\<close>

text \<open>
  C10. Whenever the guard at the top of \<open>_on_canvas_click\<close> does not return, one of
  the three attributes is not \<open>None\<close>, so one of the three dispatch branches is taken
  and the handler never reaches the \<open>raise\<close> after them.
\<close>

theorem dispatch_raise_unreachable:
  assumes "\<not> (py_any [truthy (current_line_algorithm s),
                     truthy (current_curve_algorithm s),
                     truthy (current_parametric_algorithm s)] = False)"
  shows "(current_line_algorithm s \<noteq> None \<or> current_curve_algorithm s \<noteq> None
           \<or> current_parametric_algorithm s \<noteq> None)
         \<and> on_canvas_click get_points e s \<noteq> Inl RaiseOfString"
proof -
  from assms have sel: "current_line_algorithm s \<noteq> None \<or> current_curve_algorithm s \<noteq> None
           \<or> current_parametric_algorithm s \<noteq> None"
    by (auto simp: py_any_def)
  then have "on_canvas_click get_points e s \<noteq> Inl RaiseOfString"
    by (auto simp: on_canvas_click_def floordiv_def Let_def split: option.splits sum.splits)
  with sel show ?thesis by simp
qed

theorem dispatch_raise_unreachable_witness:
  "start_x ((set_line_algorithm ''Wu'' state_after_init)\<lparr>start_x := Some 2, start_y := Some 1\<rparr>)
     = Some 2
   \<and> current_line_algorithm
       ((set_line_algorithm ''Wu'' state_after_init)\<lparr>start_x := Some 2, start_y := Some 1\<rparr>)
     = Some Wu
   \<and> on_canvas_click (\<lambda>a x0 y0 x1 y1. [(x1, y1, ''black'')]) \<lparr>event_x = 23, event_y = 38\<rparr>
         ((set_line_algorithm ''Wu'' state_after_init)\<lparr>start_x := Some 2, start_y := Some 1\<rparr>)
       \<noteq> Inl RaiseOfString
   \<and> on_canvas_click (\<lambda>a x0 y0 x1 y1. [(x1, y1, ''black'')]) \<lparr>event_x = 23, event_y = 38\<rparr>
         ((set_line_algorithm ''Wu'' state_after_init)\<lparr>start_x := Some 2, start_y := Some 1\<rparr>)
       = Inr ((set_line_algorithm ''Wu'' state_after_init)
               \<lparr>canvas := canvas state_after_init @
                  [Oval 20 35 26 41 ''red'', Rectangle 20 35 25 40 ''black'' ''black'']\<rparr>)"
proof -
  let ?s = "(set_line_algorithm ''Wu'' state_after_init)\<lparr>start_x := Some 2, start_y := Some 1\<rparr>"
  have s: "set_line_algorithm ''Wu'' state_after_init =
             state_after_init\<lparr>current_line_algorithm := Some Wu, title := ''Wu''\<rparr>"
    by (simp add: set_line_algorithm_def uncheck_all_algorithms_def Let_def)
  have g: "\<not> (py_any [truthy (current_line_algorithm ?s),
                      truthy (current_curve_algorithm ?s),
                      truthy (current_parametric_algorithm ?s)] = False)"
    unfolding s by (simp add: py_any_def)
  have run: "on_canvas_click (\<lambda>a x0 y0 x1 y1. [(x1, y1, ''black'')])
               \<lparr>event_x = 23, event_y = 38\<rparr> ?s =
             Inr ((set_line_algorithm ''Wu'' state_after_init)
               \<lparr>canvas := canvas state_after_init @
                  [Oval 20 35 26 41 ''red'', Rectangle 20 35 25 40 ''black'' ''black'']\<rparr>)"
    unfolding s
    by (simp add: on_canvas_click_def py_any_def floordiv_def Let_def state_after_init_def
                  create_rectangle_def)
  show ?thesis
    using dispatch_raise_unreachable
            [OF g, of "\<lambda>a x0 y0 x1 y1. [(x1, y1, ''black'')]" "\<lparr>event_x = 23, event_y = 38\<rparr>"]
          run
    unfolding s by simp
qed

subsection \<open>Drawing with and without latency\<close>

lemma create_rectangle_eq:
  "create_rectangle p s = s\<lparr>canvas := canvas s @ [rectangle_of (grid_size s) p]\<rparr>"
  by (cases p) (simp add: create_rectangle_def rectangle_of_def)

lemma draw_points_eq:
  "draw_points points s = s\<lparr>canvas := canvas s @ map (rectangle_of (grid_size s)) points\<rparr>"
  by (induction points arbitrary: s) (simp_all add: create_rectangle_eq)

lemma latency_step:
  assumes "i < length points"
  shows "draw_points_with_latency points i s =
           s\<lparr>canvas := canvas s @ [rectangle_of (grid_size s) (points ! i)],
             stdout := stdout s @ [point_line (points ! i)],
             after_queue := after_queue s @ [(50, points, Suc i)]\<rparr>"
  using assms
  by (cases "points ! i")
     (simp add: draw_points_with_latency_def Let_def create_rectangle_eq point_line_def)

lemma latency_done:
  assumes "length points \<le> i"
  shows "draw_points_with_latency points i s = s"
  using assms by (simp add: draw_points_with_latency_def)

lemma run_timers_latency:
  assumes "after_queue s = []"
  shows "run_timers (draw_points_with_latency points i s) =
           s\<lparr>canvas := canvas s @ map (rectangle_of (grid_size s)) (drop i points),
             stdout := stdout s @ map point_line (drop i points)\<rparr>"
  using assms
proof (induction "length points - i" arbitrary: i s)
  case 0
  then have le: "length points \<le> i" by simp
  have "run_timers s = s"
    using "0.prems" by (subst run_timers.simps) simp
  with le show ?case by (simp add: latency_done)
next
  case (Suc n)
  then have lt: "i < length points" by simp
  let ?t = "s\<lparr>canvas := canvas s @ [rectangle_of (grid_size s) (points ! i)],
               stdout := stdout s @ [point_line (points ! i)]\<rparr>"
  have qt: "after_queue ?t = []" using Suc.prems by simp
  have step: "draw_points_with_latency points i s = ?t\<lparr>after_queue := [(50, points, Suc i)]\<rparr>"
    using Suc.prems by (simp add: latency_step [OF lt])
  have fire: "fire_timer (?t\<lparr>after_queue := [(50, points, Suc i)]\<rparr>) =
                draw_points_with_latency points (Suc i) ?t"
  proof -
    have "?t\<lparr>after_queue := []\<rparr> = ?t"
      using Suc.prems by (cases s) simp
    then show ?thesis by (simp add: fire_timer_def)
  qed
  have "run_timers (?t\<lparr>after_queue := [(50, points, Suc i)]\<rparr>) =
          run_timers (fire_timer (?t\<lparr>after_queue := [(50, points, Suc i)]\<rparr>))"
    by (subst run_timers.simps) simp
  then have "run_timers (draw_points_with_latency points i s) =
          run_timers (draw_points_with_latency points (Suc i) ?t)"
    by (simp only: step fire)
  also have "\<dots> = ?t\<lparr>canvas := canvas ?t @ map (rectangle_of (grid_size ?t)) (drop (Suc i) points),
             stdout := stdout ?t @ map point_line (drop (Suc i) points)\<rparr>"
  proof (rule Suc.hyps(1))
    show "n = length points - Suc i" using Suc.hyps(2) by simp
    show "after_queue ?t = []" by (rule qt)
  qed
  also have "\<dots> = s\<lparr>canvas := canvas s @ map (rectangle_of (grid_size s)) (drop i points),
             stdout := stdout s @ map point_line (drop i points)\<rparr>"
    using lt by (simp add: Cons_nth_drop_Suc [symmetric])
  finally show ?case .
qed

text \<open>
  C9 (as amended). With no other timer pending, drawing a list of points in debug mode
  (\<open>_draw_points_with_latency\<close> from index 0, its \<open>after\<close> callbacks run until none is
  left) ends in the state \<open>_draw_points\<close> produces, except that one line per point has
  been printed: the canvas is the same, namely the old items followed by one rectangle
  per point, in order, with the grid-scaled corners, black outline and the point's fill.
\<close>

theorem latency_draws_same_rectangles:
  assumes "after_queue s = []"
  shows "run_timers (draw_points_with_latency points 0 s) =
           (draw_points points s)\<lparr>stdout := stdout s @ map point_line points\<rparr>
         \<and> canvas (run_timers (draw_points_with_latency points 0 s)) =
             canvas (draw_points points s)
         \<and> canvas (draw_points points s) =
             canvas s @ map (rectangle_of (grid_size s)) points"
  using run_timers_latency [OF assms, of points 0]
  by (simp add: draw_points_eq)

theorem latency_draws_same_rectangles_witness:
  "run_timers (draw_points_with_latency [(1, 2, ''black''), (2, 2, ''gray'')] 0 state_after_init) =
     (draw_points [(1, 2, ''black''), (2, 2, ''gray'')] state_after_init)
       \<lparr>stdout := [''Point:     1     2'', ''Point:     2     2'']\<rparr>
   \<and> canvas (draw_points [(1, 2, ''black''), (2, 2, ''gray'')] state_after_init) =
       canvas state_after_init @
         [Rectangle 5 10 10 15 ''black'' ''black'', Rectangle 10 10 15 15 ''black'' ''gray'']"
proof -
  have q: "after_queue state_after_init = []"
    by (simp add: state_after_init_def)
  have g: "grid_size state_after_init = 5" and o: "stdout state_after_init = []"
    by (simp_all add: state_after_init_def)
  have l1: "point_line (1, 2, ''black'') = ''Point:     1     2''"
    by code_simp
  have l2: "point_line (2, 2, ''gray'') = ''Point:     2     2''"
    by code_simp
  show ?thesis
    using latency_draws_same_rectangles [OF q, of "[(1, 2, ''black''), (2, 2, ''gray'')]"]
    by (simp add: g o l1 l2 rectangle_of_def)
qed

text \<open>
  The claim as first stated fails: the delay is not the only difference, since debug mode
  also prints. For a single point the two ways of drawing leave different output.
\<close>

theorem latency_prints_counterexample:
  "stdout (run_timers (draw_points_with_latency [(0, 0, ''black'')] 0 state_after_init)) =
     [''Point:     0     0'']
   \<and> stdout (draw_points [(0, 0, ''black'')] state_after_init) = []"
proof -
  have q: "after_queue state_after_init = []" and o: "stdout state_after_init = []"
    by (simp_all add: state_after_init_def)
  have l: "point_line (0, 0, ''black'') = ''Point:     0     0''"
    by code_simp
  show ?thesis
    using run_timers_latency [OF q, of "[(0, 0, ''black'')]" 0]
    by (simp add: o l draw_points_eq)
qed

subsection \<open>Grid coordinates of a click\<close>

lemma draw_grid_inv: "draw_grid s = Inr s' \<Longrightarrow> app_inv s \<Longrightarrow> app_inv s'"
  by (auto simp: draw_grid_def app_inv_def Let_def split: sum.splits)

lemma init_inv: "DrawingApp_init w h = Inr s \<Longrightarrow> app_inv s"
  by (auto simp: DrawingApp_init_def draw_grid_def app_inv_def Let_def split: sum.splits)

lemma configure_inv: "on_configure w h s = Inr s' \<Longrightarrow> app_inv s \<Longrightarrow> app_inv s'"
  unfolding on_configure_def by (erule draw_grid_inv) (simp add: app_inv_def)

lemma latency_fields:
  "grid_size (draw_points_with_latency points i s) = grid_size s"
  "start_x (draw_points_with_latency points i s) = start_x s"
  "start_y (draw_points_with_latency points i s) = start_y s"
  "current_line_algorithm (draw_points_with_latency points i s) = current_line_algorithm s"
  "current_curve_algorithm (draw_points_with_latency points i s) = current_curve_algorithm s"
  "current_parametric_algorithm (draw_points_with_latency points i s) =
     current_parametric_algorithm s"
  "debug_mode (draw_points_with_latency points i s) = debug_mode s"
  by (cases "i < length points"; simp add: latency_step latency_done)+

lemma latency_call_inv: "app_inv (draw_points_with_latency points i s) = app_inv s"
  by (simp add: app_inv_def latency_fields)

lemma fire_timer_inv: "app_inv s \<Longrightarrow> app_inv (fire_timer s)"
  by (auto simp: fire_timer_def latency_call_inv split: list.splits) (simp add: app_inv_def)

lemma click_inv: "on_canvas_click gp e s = Inr s' \<Longrightarrow> app_inv s \<Longrightarrow> app_inv s'"
  by (auto simp: on_canvas_click_def floordiv_def Let_def app_inv_def draw_points_eq
                 latency_fields
           split: if_splits sum.splits option.splits)

lemma reachable_inv: "reachable gp s \<Longrightarrow> app_inv s"
proof (induction rule: reachable.induct)
  case (r_init w h s)
  then show ?case by (rule init_inv)
next
  case (r_click s e s')
  then show ?case by (blast intro: click_inv)
next
  case (r_configure s w h s')
  then show ?case by (blast intro: configure_inv)
next
  case (r_menu s l)
  then show ?case by (auto simp: set_line_algorithm_def uncheck_all_algorithms_def app_inv_def Let_def)
next
  case (r_debug s)
  then show ?case by (simp add: toggle_debug_mode_def app_inv_def)
next
  case (r_timer s)
  from r_timer.IH show ?case by (rule fire_timer_inv)
qed

text \<open>
  C7. In every reachable state the cell size is 5, so a click that passes the guard maps
  its pixel coordinates to grid coordinates by floor division by 5: the first click of a
  pair records \<open>event.x // 5\<close> and \<open>event.y // 5\<close> as the start, the second hands the
  recorded start and its own \<open>event.x // 5\<close>, \<open>event.y // 5\<close> to the selected algorithm
  and draws what it returns.
\<close>

theorem click_grid_coordinates:
  assumes "reachable get_points s"
      and "\<not> (py_any [truthy (current_line_algorithm s),
                       truthy (current_curve_algorithm s),
                       truthy (current_parametric_algorithm s)] = False)"
  shows "grid_size s = 5
         \<and> (start_x s = None) = (start_y s = None)
         \<and> on_canvas_click get_points e s =
             (let gx = event_x e div 5;
                  gy = event_y e div 5;
                  s1 = s\<lparr>canvas := canvas s @
                         [Oval (event_x e - 3) (event_y e - 3)
                               (event_x e + 3) (event_y e + 3) ''red'']\<rparr>
              in case start_x s of
                   None \<Rightarrow> Inr (s1\<lparr>start_x := Some gx, start_y := Some gy\<rparr>)
                 | Some sx \<Rightarrow>
                     (let points_to_draw =
                            get_points (the (current_line_algorithm s)) sx (the (start_y s)) gx gy
                      in Inr ((if debug_mode s
                               then draw_points_with_latency points_to_draw 0 s1
                               else draw_points points_to_draw s1)
                              \<lparr>start_x := None, start_y := None\<rparr>)))"
proof -
  from assms(1) have inv: "app_inv s" by (rule reachable_inv)
  then have g: "grid_size s = 5" and xy: "(start_x s = None) = (start_y s = None)"
    and c: "current_curve_algorithm s = None" and p: "current_parametric_algorithm s = None"
    by (simp_all add: app_inv_def)
  from assms(2) c p obtain a where a: "current_line_algorithm s = Some a"
    by (cases "current_line_algorithm s") (auto simp: py_any_def)
  show ?thesis
  proof (cases "start_x s")
    case None
    then show ?thesis
      using g xy a by (simp add: on_canvas_click_def py_any_def floordiv_def Let_def)
  next
    case (Some sx)
    with xy obtain sy where sy: "start_y s = Some sy" by (cases "start_y s") auto
    show ?thesis
      using g xy a Some sy c p
      by (simp add: on_canvas_click_def py_any_def floordiv_def Let_def)
  qed
qed

theorem click_grid_coordinates_witness:
  "on_canvas_click (\<lambda>a x0 y0 x1 y1. [(x0, y0, ''black''), (x1, y1, ''black'')])
     \<lparr>event_x = 12, event_y = 7\<rparr> (set_line_algorithm ''DDA'' state_after_init) =
     Inr ((set_line_algorithm ''DDA'' state_after_init)
           \<lparr>canvas := canvas state_after_init @ [Oval 9 4 15 10 ''red''],
            start_x := Some 2, start_y := Some 1\<rparr>)
   \<and> on_canvas_click (\<lambda>a x0 y0 x1 y1. [(x0, y0, ''black''), (x1, y1, ''black'')])
     \<lparr>event_x = 23, event_y = 38\<rparr>
     ((set_line_algorithm ''DDA'' state_after_init)
           \<lparr>canvas := canvas state_after_init @ [Oval 9 4 15 10 ''red''],
            start_x := Some 2, start_y := Some 1\<rparr>) =
     Inr ((set_line_algorithm ''DDA'' state_after_init)
           \<lparr>canvas := canvas state_after_init @
              [Oval 9 4 15 10 ''red'', Oval 20 35 26 41 ''red'',
               Rectangle 10 5 15 10 ''black'' ''black'',
               Rectangle 20 35 25 40 ''black'' ''black'']\<rparr>)"
proof -
  let ?gp = "\<lambda>(a::line_algorithm) (x0::int) (y0::int) (x1::int) (y1::int).
               [(x0, y0, ''black''), (x1, y1, ''black'')]"
  let ?s1 = "set_line_algorithm ''DDA'' state_after_init"
  let ?s2 = "?s1\<lparr>canvas := canvas state_after_init @ [Oval 9 4 15 10 ''red''],
                 start_x := Some 2, start_y := Some 1\<rparr>"
  have s1: "?s1 = state_after_init\<lparr>current_line_algorithm := Some DDA, title := ''DDA''\<rparr>"
    by (simp add: set_line_algorithm_def uncheck_all_algorithms_def Let_def)
  have r1: "reachable ?gp ?s1"
    by (rule r_menu [OF r_init [OF init_1_1]]) simp
  have g1: "\<not> (py_any [truthy (current_line_algorithm ?s1),
                       truthy (current_curve_algorithm ?s1),
                       truthy (current_parametric_algorithm ?s1)] = False)"
    by (simp add: s1 py_any_def)
  have c1: "on_canvas_click ?gp \<lparr>event_x = 12, event_y = 7\<rparr> ?s1 = Inr ?s2"
    using click_grid_coordinates [OF r1 g1, of "\<lparr>event_x = 12, event_y = 7\<rparr>"]
    unfolding s1 by (simp add: state_after_init_def)
  have r2: "reachable ?gp ?s2"
    by (rule r_click [OF r1 c1])
  have g2: "\<not> (py_any [truthy (current_line_algorithm ?s2),
                       truthy (current_curve_algorithm ?s2),
                       truthy (current_parametric_algorithm ?s2)] = False)"
    by (simp add: s1 py_any_def)
  have c2: "on_canvas_click ?gp \<lparr>event_x = 23, event_y = 38\<rparr> ?s2 =
     Inr (?s1\<lparr>canvas := canvas state_after_init @
              [Oval 9 4 15 10 ''red'', Oval 20 35 26 41 ''red'',
               Rectangle 10 5 15 10 ''black'' ''black'',
               Rectangle 20 35 25 40 ''black'' ''black'']\<rparr>)"
    using click_grid_coordinates [OF r2 g2, of "\<lparr>event_x = 23, event_y = 38\<rparr>"]
    unfolding s1 by (simp add: state_after_init_def create_rectangle_def)
  from c1 c2 show ?thesis by simp
qed

section \<open>Properties of the rasterizers\<close>

subsection \<open>Bresenham: number of cells and endpoints\<close>

lemma Bresenham_steps_length:
  "length (Bresenham_steps tie dM dm sM sm n major minor error) = n"
  by (induction n arbitrary: major minor error) auto

lemma Bresenham_steps_hd:
  "hd (Bresenham_steps tie dM dm sM sm (Suc n) major minor error) = (major, minor)"
  by simp

lemma Bresenham_steps_ne:
  "Bresenham_steps tie dM dm sM sm (Suc n) major minor error \<noteq> []"
  by simp

lemma Bresenham_steps_last:
  assumes "0 \<le> dm" and "dm \<le> dM"
      and "2 * dm - 2 * dM \<le> error" and "error \<le> 2 * dm"
  shows "\<exists>k. last (Bresenham_steps tie dM dm sM sm (Suc n) major minor error) =
               (major + int n * sM, minor + k * sm)
             \<and> 2 * dm - 2 * dM \<le> error + 2 * int n * dm - 2 * k * dM
             \<and> error + 2 * int n * dm - 2 * k * dM \<le> 2 * dm"
  using assms(3,4)
proof (induction n arbitrary: major minor error)
  case 0
  then show ?case by (intro exI [of _ 0]) simp
next
  case (Suc n)
  show ?case
  proof (cases "0 < error \<or> (tie \<and> error = 0)")
    case True
    let ?e = "error - 2 * dM + 2 * dm"
    have b: "2 * dm - 2 * dM \<le> ?e" "?e \<le> 2 * dm"
      using True Suc.prems assms(1,2) by auto
    from Suc.IH [OF b, of "major + sM" "minor + sm"]
    obtain k where k:
      "last (Bresenham_steps tie dM dm sM sm (Suc n) (major + sM) (minor + sm) ?e) =
         (major + sM + int n * sM, minor + sm + k * sm)"
      "2 * dm - 2 * dM \<le> ?e + 2 * int n * dm - 2 * k * dM"
      "?e + 2 * int n * dm - 2 * k * dM \<le> 2 * dm"
      by blast
    have l: "last (Bresenham_steps tie dM dm sM sm (Suc (Suc n)) major minor error) =
             last (Bresenham_steps tie dM dm sM sm (Suc n) (major + sM) (minor + sm) ?e)"
      using True by (subst Bresenham_steps.simps(2)) (simp del: Bresenham_steps.simps add: Bresenham_steps_ne)
    show ?thesis
      using k unfolding l
      by (intro exI [of _ "k + 1"]) (simp add: algebra_simps)
  next
    case False
    let ?e = "error + 2 * dm"
    have b: "2 * dm - 2 * dM \<le> ?e" "?e \<le> 2 * dm"
      using False Suc.prems assms(1,2) by auto
    from Suc.IH [OF b, of "major + sM" minor]
    obtain k where k:
      "last (Bresenham_steps tie dM dm sM sm (Suc n) (major + sM) minor ?e) =
         (major + sM + int n * sM, minor + k * sm)"
      "2 * dm - 2 * dM \<le> ?e + 2 * int n * dm - 2 * k * dM"
      "?e + 2 * int n * dm - 2 * k * dM \<le> 2 * dm"
      by blast
    have l: "last (Bresenham_steps tie dM dm sM sm (Suc (Suc n)) major minor error) =
             last (Bresenham_steps tie dM dm sM sm (Suc n) (major + sM) minor ?e)"
      using False by (subst Bresenham_steps.simps(2)) (auto simp del: Bresenham_steps.simps simp add: Bresenham_steps_ne)
    show ?thesis
      using k unfolding l
      by (intro exI [of _ k]) (simp add: algebra_simps)
  qed
qed

lemma minor_steps_exact:
  fixes dM dm k :: int
  assumes "0 < dM"
      and "2 * dm - 2 * dM \<le> 2 * dm - dM + 2 * dM * dm - 2 * k * dM"
      and "2 * dm - dM + 2 * dM * dm - 2 * k * dM \<le> 2 * dm"
  shows "k = dm"
proof (rule ccontr)
  assume "k \<noteq> dm"
  then consider "k + 1 \<le> dm" | "dm + 1 \<le> k" by linarith
  then show False
  proof cases
    case 1
    then have "dM * (k + 1) \<le> dM * dm" using assms(1) by (intro mult_left_mono) auto
    with assms show False by (simp add: algebra_simps)
  next
    case 2
    then have "dM * (dm + 1) \<le> dM * k" using assms(1) by (intro mult_left_mono) auto
    with assms show False by (simp add: algebra_simps)
  qed
qed

lemma Bresenham_steps_end:
  assumes "0 \<le> dm" and "dm \<le> dM"
  shows "last (Bresenham_steps tie dM dm sM sm (nat dM + 1) major minor (2 * dm - dM)) =
           (major + dM * sM, minor + dm * sm)"
proof (cases "dM = 0")
  case True
  with assms show ?thesis by simp
next
  case False
  with assms have pos: "0 < dM" by simp
  have b: "2 * dm - 2 * dM \<le> 2 * dm - dM" "2 * dm - dM \<le> 2 * dm"
    using pos by auto
  from Bresenham_steps_last [OF assms b, of tie sM sm "nat dM" major minor]
  obtain k where k:
    "last (Bresenham_steps tie dM dm sM sm (Suc (nat dM)) major minor (2 * dm - dM)) =
       (major + int (nat dM) * sM, minor + k * sm)"
    "2 * dm - 2 * dM \<le> 2 * dm - dM + 2 * int (nat dM) * dm - 2 * k * dM"
    "2 * dm - dM + 2 * int (nat dM) * dm - 2 * k * dM \<le> 2 * dm"
    by blast
  have n: "int (nat dM) = dM" using pos by simp
  have "k = dm"
    using k(2,3) unfolding n by (intro minor_steps_exact [OF pos]) (simp_all add: algebra_simps)
  with k(1) n show ?thesis by simp
qed

lemma abs_times_sgn: "\<bar>d\<bar> * sgn d = (d::int)"
  by (simp add: abs_if sgn_if)

text \<open>
  C1. For every pair of grid points, whichever way a zero decision error is resolved,
  Bresenham returns exactly \<open>max(|dx|, |dy|) + 1\<close> cells, all of them fully opaque; the
  first is the start point and the last is the end point.
\<close>

theorem Bresenham_cells:
  "length (Bresenham_get_points tie x0 y0 x1 y1) = nat (max \<bar>x1 - x0\<bar> \<bar>y1 - y0\<bar>) + 1
   \<and> (\<forall>c \<in> set (Bresenham_get_points tie x0 y0 x1 y1). snd (snd c) = 1)
   \<and> hd (Bresenham_get_points tie x0 y0 x1 y1) = (x0, y0, 1)
   \<and> last (Bresenham_get_points tie x0 y0 x1 y1) = (x1, y1, 1)"
proof (cases "\<bar>y1 - y0\<bar> \<le> \<bar>x1 - x0\<bar>")
  case True
  let ?steps = "Bresenham_steps (tie (sgn (y1 - y0))) \<bar>x1 - x0\<bar> \<bar>y1 - y0\<bar>
                  (sgn (x1 - x0)) (sgn (y1 - y0))
                  (nat \<bar>x1 - x0\<bar> + 1) x0 y0 (2 * \<bar>y1 - y0\<bar> - \<bar>x1 - x0\<bar>)"
  have eq: "Bresenham_get_points tie x0 y0 x1 y1 = map (\<lambda>(x, y). (x, y, 1)) ?steps"
    using True by (simp add: Bresenham_get_points_def Let_def del: Bresenham_steps.simps)
  have ne: "?steps \<noteq> []"
    using Bresenham_steps_ne by simp
  have len: "length ?steps = nat \<bar>x1 - x0\<bar> + 1"
    by (rule Bresenham_steps_length)
  have h: "hd ?steps = (x0, y0)"
    using Bresenham_steps_hd by simp
  have "last ?steps = (x0 + \<bar>x1 - x0\<bar> * sgn (x1 - x0), y0 + \<bar>y1 - y0\<bar> * sgn (y1 - y0))"
    using True by (intro Bresenham_steps_end) simp_all
  then have l: "last ?steps = (x1, y1)"
    by (simp add: abs_times_sgn)
  show ?thesis
    unfolding eq using ne len h l True
    by (auto simp: hd_map last_map max_def simp del: Bresenham_steps.simps)
next
  case False
  let ?steps = "Bresenham_steps (tie (sgn (x1 - x0))) \<bar>y1 - y0\<bar> \<bar>x1 - x0\<bar>
                  (sgn (y1 - y0)) (sgn (x1 - x0))
                  (nat \<bar>y1 - y0\<bar> + 1) y0 x0 (2 * \<bar>x1 - x0\<bar> - \<bar>y1 - y0\<bar>)"
  have eq: "Bresenham_get_points tie x0 y0 x1 y1 = map (\<lambda>(y, x). (x, y, 1)) ?steps"
    using False by (simp add: Bresenham_get_points_def Let_def del: Bresenham_steps.simps)
  have ne: "?steps \<noteq> []"
    using Bresenham_steps_ne by simp
  have len: "length ?steps = nat \<bar>y1 - y0\<bar> + 1"
    by (rule Bresenham_steps_length)
  have h: "hd ?steps = (y0, x0)"
    using Bresenham_steps_hd by simp
  have "last ?steps = (y0 + \<bar>y1 - y0\<bar> * sgn (y1 - y0), x0 + \<bar>x1 - x0\<bar> * sgn (x1 - x0))"
    using False by (intro Bresenham_steps_end) simp_all
  then have l: "last ?steps = (y1, x1)"
    by (simp add: abs_times_sgn)
  show ?thesis
    unfolding eq using ne len h l False
    by (auto simp: hd_map last_map max_def simp del: Bresenham_steps.simps)
qed

theorem Bresenham_cells_witness:
  "Bresenham_get_points (\<lambda>s. True) 0 0 4 1 =
     [(0, 0, 1), (1, 0, 1), (2, 1, 1), (3, 1, 1), (4, 1, 1)]
   \<and> length (Bresenham_get_points (\<lambda>s. True) 0 0 4 1) = 5
   \<and> hd (Bresenham_get_points (\<lambda>s. True) 0 0 4 1) = (0, 0, 1)
   \<and> last (Bresenham_get_points (\<lambda>s. True) 0 0 4 1) = (4, 1, 1)"
  using Bresenham_cells [of "\<lambda>s. True" 0 0 4 1]
  by (simp add: Bresenham_get_points_def numeral_eq_Suc)

subsection \<open>Bresenham: reversing the endpoints\<close>









subsection \<open>DDA: reversing the endpoints\<close>




subsection \<open>Reversed endpoints\<close>



text \<open>
  The rule for a zero error matters here. A rule that looks only at the direction of
  travel (the same answer whichever way the minor axis runs) takes opposite cells in the
  two directions: from \<open>(0, 0)\<close> to \<open>(2, 1)\<close> the error is \<open>0\<close> at the first cell, and
  the two directions disagree on the middle cell.
\<close>

lemma travel_relative_tie_asymmetric:
  "Bresenham_get_points (\<lambda>s. True) 0 0 2 1 = [(0, 0, 1), (1, 1, 1), (2, 1, 1)]
   \<and> Bresenham_get_points (\<lambda>s. True) 2 1 0 0 = [(2, 1, 1), (1, 0, 1), (0, 0, 1)]
   \<and> Bresenham_get_points (\<lambda>s. False) 0 0 2 1 = [(0, 0, 1), (1, 0, 1), (2, 1, 1)]
   \<and> Bresenham_get_points (\<lambda>s. False) 2 1 0 0 = [(2, 1, 1), (1, 1, 1), (0, 0, 1)]"
  by (simp add: Bresenham_get_points_def numeral_eq_Suc)

subsection \<open>Zero-length segments\<close>

text \<open>
  C2. For every grid point \<open>p\<close>, each of the three algorithms called with
  \<open>start = end = p\<close> returns exactly one cell, at \<open>p\<close>, fully opaque.
\<close>

theorem zero_length_segment:
  "DDA_get_points nearest px py px py = [(px, py, 1)]
   \<and> Bresenham_get_points tie px py px py = [(px, py, 1)]
   \<and> Wu_get_points px py px py = [(px, py, 1)]"
  by (simp add: DDA_get_points_def Bresenham_get_points_def Wu_get_points_def)

theorem zero_length_segment_witness:
  "DDA_get_points round 3 (- 2) 3 (- 2) = [(3, - 2, 1)]
   \<and> Bresenham_get_points (\<lambda>s. True) 3 (- 2) 3 (- 2) = [(3, - 2, 1)]
   \<and> Wu_get_points 3 (- 2) 3 (- 2) = [(3, - 2, 1)]"
  using zero_length_segment [of round 3 "- 2" "\<lambda>s. True"]
  by simp

subsection \<open>Wu: blend weights and endpoints\<close>




lemma Wu_steps_concat:
  "Wu_steps s g n major v =
     concat (map (\<lambda>k. map (\<lambda>(minor, w). (major + int k * s, minor, w))
                          (Wu_blend (v + of_nat k * g))) [0..<n])"
proof (induction n arbitrary: major v)
  case 0
  show ?case by simp
next
  case (Suc n)
  have u: "[0..<Suc n] = 0 # map Suc [0..<n]"
    by (simp add: upt_conv_Cons map_Suc_upt del: upt_Suc)
  show ?case
    unfolding u by (simp add: Suc.IH comp_def algebra_simps)
qed

lemma Wu_steps_major:
  assumes "c \<in> set (Wu_steps s g n major v)"
  shows "\<exists>k<n. fst c = major + int k * s"
  using assms unfolding Wu_steps_concat by auto


lemma sgn_steps:
  fixes d :: int and k :: nat
  assumes "int k < \<bar>d\<bar> - 1"
  shows "a + sgn d + int k * sgn d \<noteq> a" and "a + sgn d + int k * sgn d \<noteq> a + d"
  using assms by (auto simp: sgn_if abs_if split: if_splits)



text \<open>
  C4. For every pair of endpoints the first cell Wu returns is the start point and the
  last is the end point, both fully opaque, and no cell at the position of either
  endpoint is anything but fully opaque.
\<close>

theorem Wu_endpoints_opaque:
  "hd (Wu_get_points x0 y0 x1 y1) = (x0, y0, 1)
   \<and> last (Wu_get_points x0 y0 x1 y1) = (x1, y1, 1)
   \<and> (\<forall>c \<in> set (Wu_get_points x0 y0 x1 y1).
         (fst c, fst (snd c)) = (x0, y0) \<or> (fst c, fst (snd c)) = (x1, y1) \<longrightarrow>
         snd (snd c) = 1)"
proof (cases "x1 - x0 = 0 \<and> y1 - y0 = 0")
  case True
  then show ?thesis by (simp add: Wu_get_points_def)
next
  case nz: False
  show ?thesis
  proof (cases "\<bar>y1 - y0\<bar> \<le> \<bar>x1 - x0\<bar>")
    case True
    define g :: rat where "g = of_int (y1 - y0) / of_int \<bar>x1 - x0\<bar>"
    define m where "m = nat \<bar>x1 - x0\<bar> - 1"
    define mid where "mid = Wu_steps (sgn (x1 - x0)) g m (x0 + sgn (x1 - x0)) (of_int y0 + g)"
    have ws: "Wu_get_points x0 y0 x1 y1 = (x0, y0, 1) # mid @ [(x1, y1, 1)]"
      using True nz unfolding Wu_get_points_def Let_def mid_def m_def g_def by simp
    have inner: "fst c \<noteq> x0 \<and> fst c \<noteq> x1" if "c \<in> set mid" for c
    proof -
      from that obtain k where k: "k < m" "fst c = x0 + sgn (x1 - x0) + int k * sgn (x1 - x0)"
        unfolding mid_def using Wu_steps_major by blast
      from k(1) have "int k < \<bar>x1 - x0\<bar> - 1" unfolding m_def by simp
      from sgn_steps [OF this, of x0] k(2) show ?thesis by simp
    qed
    show ?thesis
      unfolding ws using inner by auto
  next
    case False
    define g :: rat where "g = of_int (x1 - x0) / of_int \<bar>y1 - y0\<bar>"
    define m where "m = nat \<bar>y1 - y0\<bar> - 1"
    define st where "st = Wu_steps (sgn (y1 - y0)) g m (y0 + sgn (y1 - y0)) (of_int x0 + g)"
    define mid where "mid = map (\<lambda>(y, x, w). (x, y, w)) st"
    have ws: "Wu_get_points x0 y0 x1 y1 = (x0, y0, 1) # mid @ [(x1, y1, 1)]"
      using False nz unfolding Wu_get_points_def Let_def mid_def st_def m_def g_def by simp
    have inner: "fst (snd c) \<noteq> y0 \<and> fst (snd c) \<noteq> y1" if "c \<in> set mid" for c
    proof -
      from that obtain d where d: "d \<in> set st" "c = (\<lambda>(y, x, w). (x, y, w)) d"
        unfolding mid_def by auto
      have fc: "fst (snd c) = fst d" using d(2) by (simp add: case_prod_unfold)
      from d(1) obtain k where k: "k < m" "fst d = y0 + sgn (y1 - y0) + int k * sgn (y1 - y0)"
        unfolding st_def using Wu_steps_major by blast
      from k(1) have "int k < \<bar>y1 - y0\<bar> - 1" unfolding m_def by simp
      from sgn_steps [OF this, of y0] k(2) fc show ?thesis by simp
    qed
    show ?thesis
      unfolding ws using inner by auto
  qed
qed

theorem Wu_endpoints_opaque_witness:
  "Wu_get_points 0 0 (- 1) 3 =
     [(0, 0, 1), (- 1, 1, 1 / 3), (0, 1, 2 / 3), (- 1, 2, 2 / 3), (0, 2, 1 / 3), (- 1, 3, 1)]
   \<and> hd (Wu_get_points 0 0 (- 1) 3) = (0, 0, 1)
   \<and> last (Wu_get_points 0 0 (- 1) 3) = (- 1, 3, 1)"
proof -
  have e: "Wu_get_points 0 0 (- 1) 3 =
     [(0, 0, 1), (- 1, 1, 1 / 3), (0, 1, 2 / 3), (- 1, 2, 2 / 3), (0, 2, 1 / 3), (- 1, 3, 1)]"
    by code_simp
  show ?thesis
    using Wu_endpoints_opaque [of 0 0 "- 1" 3] by (simp add: e)
qed

end
